theory Spec2Isabelle
  imports Main
begin

section \<open>Data model (types.ts)\<close>

text \<open>
  The roles \<^verbatim>\<open>'CLIENT' | 'SERVER'\<close> and the three string enums of \<^verbatim>\<open>types.ts\<close>.
\<close>

datatype Endpoint = CLIENT | SERVER

datatype ConnectionState = CLOSED | LISTEN | SYN_SENT | SYN_RCVD | ESTABLISHED | FIN_WAIT

datatype PacketFlag = NONE | SYN | ACK | SYN_ACK | FIN | RST | DATA

datatype LogType = Info | Success | Error | Warning | Traffic

text \<open>
  A \<^verbatim>\<open>LogEntry\<close>. Its \<^verbatim>\<open>id\<close> (from \<^verbatim>\<open>Math.random\<close>) and \<^verbatim>\<open>timestamp\<close> (the wall
  clock, formatted) are read by the rendering only and are left out; the message and the
  category are kept.
\<close>

record LogEntry =
  message :: string
  entry_type :: LogType

text \<open>
  A \<^verbatim>\<open>Packet\<close>. JavaScript numbers are modelled as unbounded integers: every sequence
  number of the program is an integer reached from 100 or 5000 by adding 1. The optional
  fields \<^verbatim>\<open>sessionId\<close> and \<^verbatim>\<open>dropped\<close> are options (\<open>None\<close> is \<^verbatim>\<open>undefined\<close>).
\<close>

record Packet =
  pkt_id :: string
  source :: Endpoint
  destination :: Endpoint
  flag :: PacketFlag
  pkt_seq :: int
  ack :: int
  payload :: string
  pkt_sessionId :: "string option"
  timestamp :: int
  dropped :: "bool option"

record NodeState =
  role :: Endpoint
  connectionState :: ConnectionState
  seq :: int
  lastAckReceived :: int
  sessionId :: "string option"
  logs :: "LogEntry list"

text \<open>
  The React state of \<^verbatim>\<open>App\<close> that the protocol reads and writes: the two nodes and the
  packets in flight. (\<^verbatim>\<open>geminiAnalysis\<close> and \<^verbatim>\<open>isAnalyzing\<close> belong to the annotation
  service and are written by \<^verbatim>\<open>handleAnalyzePacket\<close> only; they are not modelled.)

  The same record is used for two things: the current state, which the functional
  updates \<^verbatim>\<open>setClient(prev => ...)\<close>, \<^verbatim>\<open>setServer(prev => ...)\<close> and
  \<^verbatim>\<open>setPackets(prev => ...)\<close> transform, and the values \<^verbatim>\<open>client\<close>, \<^verbatim>\<open>server\<close> and
  \<^verbatim>\<open>packets\<close> of one render, which every function defined in that render reads as
  constants of its closure. Each function below therefore takes the render it was
  defined in (\<open>snap\<close>) and the current state (\<open>w\<close>). A handler attached to a button of the
  page belongs to the latest render, so there \<open>snap\<close> is \<open>w\<close>; a timer callback keeps the
  render in which it was created. Updates are applied in the order of the calls.

  The interval of lines 193-212 returns the packets as they are, and the effects of
  lines 215-223 and 281-287 have empty bodies: none of them changes the state.
\<close>

record World =
  client :: NodeState
  server :: NodeState
  packets :: "Packet list"

text \<open>
  The callbacks passed to \<^verbatim>\<open>setTimeout\<close>:
  \<^item> \<open>Arrival snap p\<close>: the callback of \<^verbatim>\<open>schedulePacketArrival\<close> (after
    \<^verbatim>\<open>LATENCY_MS\<close> = 3000 ms), created in render \<open>snap\<close>;
  \<^item> \<open>ArrivalRef p\<close>: the callback of \<^verbatim>\<open>schedulePacketArrivalRef.current\<close>, which goes
    through the ref and so reaches the handler of the latest render;
  \<^item> \<open>SendLater snap from flag payload overrideSeq overrideAck\<close>: a delayed call of
    \<^verbatim>\<open>sendPacketWithSchedule\<close> of render \<open>snap\<close> (the automatic replies);
  \<^item> \<open>NoAction\<close>: the callback at lines 135-148, whose body holds comments only.
\<close>

datatype Timer =
    Arrival World Packet
  | ArrivalRef Packet
  | SendLater World Endpoint PacketFlag string "int option" "int option"
  | NoAction

section \<open>Constants and initial state\<close>

definition INITIAL_SEQ :: int where
  "INITIAL_SEQ = 100"

definition INITIAL_SERVER_SEQ :: int where
  "INITIAL_SERVER_SEQ = 5000"

definition initial :: World where
  "initial =
     \<lparr>client = \<lparr>role = CLIENT, connectionState = CLOSED, seq = INITIAL_SEQ,
                lastAckReceived = 0, sessionId = None, logs = []\<rparr>,
      server = \<lparr>role = SERVER, connectionState = LISTEN, seq = INITIAL_SERVER_SEQ,
                lastAckReceived = 0, sessionId = None, logs = []\<rparr>,
      packets = []\<rparr>"

section \<open>Strings\<close>

text \<open>The values of the enum \<^verbatim>\<open>PacketFlag\<close>, as template literals print them.\<close>

fun flag_str :: "PacketFlag \<Rightarrow> string" where
  "flag_str NONE = ''NONE''"
| "flag_str SYN = ''SYN''"
| "flag_str ACK = ''ACK''"
| "flag_str SYN_ACK = ''SYN-ACK''"
| "flag_str FIN = ''FIN''"
| "flag_str RST = ''RST''"
| "flag_str DATA = ''DATA''"

text \<open>Decimal digits of an integer, as \<^verbatim>\<open>${seq}\<close> prints it.\<close>

fun show_nat :: "nat \<Rightarrow> string" where
  "show_nat n =
     (if n < 10 then [char_of (48 + n)]
      else show_nat (n div 10) @ [char_of (48 + n mod 10)])"

declare show_nat.simps [simp del]

definition show_int :: "int \<Rightarrow> string" where
  "show_int i = (if i < 0 then CHR ''-'' # show_nat (nat (- i)) else show_nat (nat i))"

text \<open>
  \<^verbatim>\<open>x || undefined\<close> and \<^verbatim>\<open>x || null\<close> on an optional string: the empty string is
  falsy, as \<^verbatim>\<open>null\<close> and \<^verbatim>\<open>undefined\<close> are.
\<close>

definition or_none :: "string option \<Rightarrow> string option" where
  "or_none x = (case x of None \<Rightarrow> None | Some s \<Rightarrow> if s = [] then None else Some s)"

text \<open>\<^verbatim>\<open>'...' + packet.sessionId\<close>: an absent field prints as \<^verbatim>\<open>undefined\<close>.\<close>

definition str_of_opt :: "string option \<Rightarrow> string" where
  "str_of_opt x = (case x of None \<Rightarrow> ''undefined'' | Some s \<Rightarrow> s)"

section \<open>Helpers\<close>

definition addLog :: "Endpoint \<Rightarrow> string \<Rightarrow> LogType \<Rightarrow> World \<Rightarrow> World" where
  "addLog r msg ty w =
     (let entry = \<lparr>message = msg, entry_type = ty\<rparr>
      in if r = CLIENT
         then w\<lparr>client := (client w)\<lparr>logs := logs (client w) @ [entry]\<rparr>\<rparr>
         else w\<lparr>server := (server w)\<lparr>logs := logs (server w) @ [entry]\<rparr>\<rparr>)"

text \<open>
  \<^verbatim>\<open>sendPacket\<close> (lines 56-92). \<open>rnd\<close> is the string that
  \<^verbatim>\<open>Math.random().toString(36).substring(7)\<close> yields and \<open>now\<close> is \<^verbatim>\<open>Date.now()\<close>.
  The call of \<^verbatim>\<open>handleAnalyzePacket\<close> touches the annotation state only. Nothing in the
  program calls this function.
\<close>

definition sendPacket ::
  "World \<Rightarrow> Endpoint \<Rightarrow> PacketFlag \<Rightarrow> string \<Rightarrow> int option \<Rightarrow> int option \<Rightarrow>
   string \<Rightarrow> int \<Rightarrow> World \<Rightarrow> World" where
  "sendPacket snap from flg pl overrideSeq overrideAck rnd now w =
     (let sender = (if from = CLIENT then client snap else server snap);
          receiverRole = (if from = CLIENT then SERVER else CLIENT);
          sq = (case overrideSeq of Some s \<Rightarrow> s | None \<Rightarrow> seq sender);
          ak = (case overrideAck of Some a \<Rightarrow> a | None \<Rightarrow> lastAckReceived sender);
          newPacket = \<lparr>pkt_id = rnd, source = from, destination = receiverRole, flag = flg,
                       pkt_seq = sq, ack = ak, payload = pl,
                       pkt_sessionId = or_none (sessionId sender), timestamp = now,
                       dropped = None\<rparr>;
          w1 = w\<lparr>packets := packets w @ [newPacket]\<rparr>;
          w2 = addLog from (''Sent '' @ flag_str flg @ '' (Seq='' @ show_int sq @
                            '' Ack='' @ show_int ak @ '')'') Traffic w1
      in if flg = SYN \<or> flg = FIN \<or> flg = DATA \<or> flg = SYN_ACK
         then (if from = CLIENT
               then w2\<lparr>client := (client w2)\<lparr>seq := seq (client w2) + 1\<rparr>\<rparr>
               else w2\<lparr>server := (server w2)\<lparr>seq := seq (server w2) + 1\<rparr>\<rparr>)
         else w2)"

text \<open>
  \<^verbatim>\<open>sendPacketWithSchedule\<close> (lines 241-277): the same, followed by
  \<^verbatim>\<open>schedulePacketArrival(newPacket)\<close> (lines 226-238), which sets the timer. The
  callback of the timer calls \<^verbatim>\<open>processPacketArrival\<close>, that is the value that
  \<^verbatim>\<open>useCallback(..., [client, server])\<close> has in the render of the call: the function
  that closes over \<^verbatim>\<open>client\<close> and \<^verbatim>\<open>server\<close> of that render. The timer therefore
  keeps the render \<open>snap\<close> of the send.
\<close>

definition schedulePacketArrival :: "World \<Rightarrow> Packet \<Rightarrow> Timer list" where
  "schedulePacketArrival snap packet = [Arrival snap packet]"

definition sendPacketWithSchedule ::
  "World \<Rightarrow> Endpoint \<Rightarrow> PacketFlag \<Rightarrow> string \<Rightarrow> int option \<Rightarrow> int option \<Rightarrow>
   string \<Rightarrow> int \<Rightarrow> World \<Rightarrow> World \<times> Timer list" where
  "sendPacketWithSchedule snap from flg pl overrideSeq overrideAck rnd now w =
     (let sender = (if from = CLIENT then client snap else server snap);
          receiverRole = (if from = CLIENT then SERVER else CLIENT);
          sq = (case overrideSeq of Some s \<Rightarrow> s | None \<Rightarrow> seq sender);
          ak = (case overrideAck of Some a \<Rightarrow> a | None \<Rightarrow> lastAckReceived sender);
          newPacket = \<lparr>pkt_id = rnd, source = from, destination = receiverRole, flag = flg,
                       pkt_seq = sq, ack = ak, payload = pl,
                       pkt_sessionId = or_none (sessionId sender), timestamp = now,
                       dropped = None\<rparr>;
          w1 = w\<lparr>packets := packets w @ [newPacket]\<rparr>;
          w2 = addLog from (''Sent '' @ flag_str flg @ '' (Seq='' @ show_int sq @
                            '' Ack='' @ show_int ak @ '')'') Traffic w1;
          w3 = (if flg = SYN \<or> flg = FIN \<or> flg = DATA \<or> flg = SYN_ACK
                then (if from = CLIENT
                      then w2\<lparr>client := (client w2)\<lparr>seq := seq (client w2) + 1\<rparr>\<rparr>
                      else w2\<lparr>server := (server w2)\<lparr>seq := seq (server w2) + 1\<rparr>\<rparr>)
                else w2)
      in (w3, schedulePacketArrival snap newPacket))"

section \<open>User actions\<close>

text \<open>\<^verbatim>\<open>handleConnect\<close> (lines 374-378).\<close>

definition handleConnect :: "World \<Rightarrow> string \<Rightarrow> int \<Rightarrow> World \<Rightarrow> World \<times> Timer list" where
  "handleConnect snap rnd now w =
     (if connectionState (client snap) \<noteq> CLOSED then (w, [])
      else sendPacketWithSchedule snap CLIENT SYN [] None None rnd now
             (w\<lparr>client := (client w)\<lparr>connectionState := SYN_SENT\<rparr>\<rparr>))"

text \<open>\<^verbatim>\<open>handleDisconnect\<close> (lines 380-383).\<close>

definition handleDisconnect :: "World \<Rightarrow> string \<Rightarrow> int \<Rightarrow> World \<Rightarrow> World \<times> Timer list" where
  "handleDisconnect snap rnd now w =
     (let (w1, ts) = sendPacketWithSchedule snap CLIENT FIN [] None None rnd now w
      in (w1\<lparr>client := (client w1)\<lparr>connectionState := CLOSED, sessionId := None\<rparr>\<rparr>, ts))"

text \<open>
  \<^verbatim>\<open>handleSendData\<close> (lines 385-389). \<open>pl\<close> is what \<^verbatim>\<open>generateSecurePayload()\<close>
  resolves to; \<open>w\<close> is the state when it resolves.
\<close>

definition handleSendData ::
  "World \<Rightarrow> string \<Rightarrow> string \<Rightarrow> int \<Rightarrow> World \<Rightarrow> World \<times> Timer list" where
  "handleSendData snap pl rnd now w =
     (if connectionState (client snap) \<noteq> ESTABLISHED then (w, [])
      else sendPacketWithSchedule snap CLIENT DATA pl None None rnd now w)"

text \<open>
  \<^verbatim>\<open>handleDropPacket\<close> (lines 94-99). The arrow function has no \<^verbatim>\<open>return\<close>
  statement, so a call evaluates to \<^verbatim>\<open>undefined\<close>. The removal is a functional update
  of the current packets; the lookup \<^verbatim>\<open>packets.find\<close> reads the packets of the render.
\<close>

datatype ReturnValue = Undefined | Boolean bool

definition handleDropPacket :: "World \<Rightarrow> string \<Rightarrow> World \<Rightarrow> ReturnValue \<times> World" where
  "handleDropPacket snap i w =
     (let w1 = w\<lparr>packets := filter (\<lambda>p. pkt_id p \<noteq> i) (packets w)\<rparr>
      in case find (\<lambda>p. pkt_id p = i) (packets snap) of
           Some pkt \<Rightarrow>
             (Undefined,
              addLog (source pkt)
                (''Packet '' @ flag_str (flag pkt) @ '' lost/dropped in transit!'') Error w1)
         | None \<Rightarrow> (Undefined, w1))"

section \<open>Packet arrival\<close>

text \<open>
  \<^verbatim>\<open>processPacketArrival\<close> (lines 110-188), the handler that the timer of
  \<^verbatim>\<open>schedulePacketArrival\<close> calls. The conditions read \<^verbatim>\<open>client\<close> and \<^verbatim>\<open>server\<close> of
  the render; the updates are functional. \<open>rnd\<close> is the string
  \<^verbatim>\<open>Math.random().toString(36).substring(2, 8).toUpperCase()\<close>. The two blocks of the
  body are given as two definitions.
\<close>

definition serverStateMachine :: "World \<Rightarrow> Packet \<Rightarrow> string \<Rightarrow> World \<Rightarrow> World \<times> Timer list" where
  "serverStateMachine snap packet rnd w =
     (if connectionState (server snap) = LISTEN then
        (if flag packet = SYN then
           (let w1 = addLog SERVER ''SYN received. Initiating Handshake.'' Success w;
                newSessionId = ''SES-'' @ rnd
            in (w1\<lparr>server := (server w1)\<lparr>connectionState := SYN_RCVD,
                                            lastAckReceived := pkt_seq packet + 1,
                                            sessionId := Some newSessionId\<rparr>\<rparr>,
                [NoAction]))
         else (w, []))
      else if connectionState (server snap) = SYN_RCVD then
        (if flag packet = ACK \<and> ack packet = seq (server snap) then
           (let w1 = addLog SERVER ''ACK received. Connection ESTABLISHED.'' Success w
            in (w1\<lparr>server := (server w1)\<lparr>connectionState := ESTABLISHED\<rparr>\<rparr>, []))
         else (w, []))
      else if connectionState (server snap) = ESTABLISHED then
        (if flag packet = DATA then
           (let w1 = addLog SERVER (''Data Processed: '' @ payload packet) Success w
            in (w1\<lparr>server := (server w1)\<lparr>lastAckReceived := pkt_seq packet + 1\<rparr>\<rparr>, []))
         else if flag packet = FIN then
           (let w1 = addLog SERVER ''FIN received. Closing connection.'' Warning w
            in (w1\<lparr>server := (server w1)\<lparr>connectionState := CLOSED, sessionId := None\<rparr>\<rparr>,
                []))
         else (w, []))
      else (w, []))"

definition clientStateMachine :: "World \<Rightarrow> Packet \<Rightarrow> World \<Rightarrow> World" where
  "clientStateMachine snap packet w =
     (if connectionState (client snap) = SYN_SENT then
        (if flag packet = SYN_ACK then
           (let w1 = addLog CLIENT (''SYN-ACK received. Session: '' @
                                    str_of_opt (pkt_sessionId packet)) Success w
            in w1\<lparr>client := (client w1)\<lparr>connectionState := ESTABLISHED,
                                           lastAckReceived := pkt_seq packet + 1,
                                           sessionId := or_none (pkt_sessionId packet)\<rparr>\<rparr>)
         else w)
      else if connectionState (client snap) = ESTABLISHED then
        (if flag packet = ACK
         then addLog CLIENT ''Data/Packet Acknowledged by Server.'' Success w
         else w)
      else w)"

definition processPacketArrival :: "World \<Rightarrow> Packet \<Rightarrow> string \<Rightarrow> World \<Rightarrow> World \<times> Timer list" where
  "processPacketArrival snap packet rnd w =
     (let w1 = w\<lparr>packets := filter (\<lambda>p. pkt_id p \<noteq> pkt_id packet) (packets w)\<rparr>;
          receiver = (if destination packet = CLIENT then client snap else server snap);
          w2 = addLog (role receiver)
                 (''Received '' @ flag_str (flag packet) @ '' (Seq='' @
                  show_int (pkt_seq packet) @ '')'') Traffic w1;
          (w3, ts) = (if role receiver = SERVER then serverStateMachine snap packet rnd w2
                      else (w2, []));
          w4 = (if role receiver = CLIENT then clientStateMachine snap packet w3 else w3)
      in (w4, ts))"

text \<open>
  \<^verbatim>\<open>processPacketArrivalRef.current\<close> (lines 293-353), the second handler, with the
  automatic replies. \<open>rnd\<close> is the string of \<^verbatim>\<open>Math.floor(Math.random()*10000)\<close>. The
  replies are calls of \<^verbatim>\<open>sendPacketWithSchedule\<close> of the same render, delayed by
  \<^verbatim>\<open>setTimeout\<close>.
\<close>

definition serverLogic :: "World \<Rightarrow> Packet \<Rightarrow> string \<Rightarrow> World \<Rightarrow> World \<times> Timer list" where
  "serverLogic snap packet rnd w =
     (if flag packet = SYN \<and> connectionState (server snap) = LISTEN then
        (let newSessionId = ''SES-'' @ rnd;
             w1 = addLog SERVER (''SYN Valid. Allocating Session '' @ newSessionId) Success w
         in (w1\<lparr>server := (server w1)\<lparr>connectionState := SYN_RCVD,
                                         lastAckReceived := pkt_seq packet + 1,
                                         sessionId := Some newSessionId\<rparr>\<rparr>,
             [SendLater snap SERVER SYN_ACK [] None (Some (pkt_seq packet + 1))]))
      else if flag packet = ACK \<and> connectionState (server snap) = SYN_RCVD then
        (let w1 = addLog SERVER ''Handshake Completed.'' Success w
         in (w1\<lparr>server := (server w1)\<lparr>connectionState := ESTABLISHED\<rparr>\<rparr>, []))
      else if flag packet = DATA \<and> connectionState (server snap) = ESTABLISHED then
        (w\<lparr>server := (server w)\<lparr>lastAckReceived := pkt_seq packet + 1\<rparr>\<rparr>,
         [SendLater snap SERVER ACK [] None (Some (pkt_seq packet + 1))])
      else if flag packet = FIN then
        (addLog SERVER ''Connection Reset/Closed'' Warning
           (w\<lparr>server := (server w)\<lparr>connectionState := CLOSED, sessionId := None\<rparr>\<rparr>), [])
      else (w, []))"

definition clientLogic :: "World \<Rightarrow> Packet \<Rightarrow> World \<Rightarrow> World \<times> Timer list" where
  "clientLogic snap packet w =
     (if flag packet = SYN_ACK \<and> connectionState (client snap) = SYN_SENT then
        (let w1 = addLog CLIENT ''Server Accepted. Sending Final ACK.'' Success w
         in (w1\<lparr>client := (client w1)\<lparr>connectionState := ESTABLISHED,
                                         lastAckReceived := pkt_seq packet + 1,
                                         sessionId := or_none (pkt_sessionId packet)\<rparr>\<rparr>,
             [SendLater snap CLIENT ACK [] None (Some (pkt_seq packet + 1))]))
      else (w, []))"

definition processPacketArrivalRef_current ::
  "World \<Rightarrow> Packet \<Rightarrow> string \<Rightarrow> World \<Rightarrow> World \<times> Timer list" where
  "processPacketArrivalRef_current snap packet rnd w =
     (let w1 = w\<lparr>packets := filter (\<lambda>p. pkt_id p \<noteq> pkt_id packet) (packets w)\<rparr>;
          receiver = (if destination packet = CLIENT then client snap else server snap);
          w2 = addLog (role receiver) (''Received '' @ flag_str (flag packet)) Traffic w1;
          (w3, ts) = (if role receiver = SERVER then serverLogic snap packet rnd w2
                      else (w2, []));
          (w4, ts') = (if role receiver = CLIENT then clientLogic snap packet w3
                       else (w3, []))
      in (w4, ts @ ts'))"

text \<open>
  \<^verbatim>\<open>handleArrival\<close> (line 356) calls whatever the ref holds; the ref is assigned in
  every render, so it holds the handler of the latest render.
  \<^verbatim>\<open>schedulePacketArrivalRef.current\<close> (lines 360-370) sets a timer that calls it.
  Nothing in the program calls \<^verbatim>\<open>schedulePacketArrivalRef.current\<close>:
  \<^verbatim>\<open>sendPacketWithSchedule\<close> calls \<^verbatim>\<open>schedulePacketArrival\<close>.
\<close>

definition handleArrival :: "Packet \<Rightarrow> string \<Rightarrow> World \<Rightarrow> World \<times> Timer list" where
  "handleArrival p rnd w = processPacketArrivalRef_current w p rnd w"

definition schedulePacketArrivalRef_current :: "Packet \<Rightarrow> Timer list" where
  "schedulePacketArrivalRef_current packet = [ArrivalRef packet]"

text \<open>
  Running the callback of a timer on the current state. The callbacks of the two
  schedulers (lines 227-237 and 361-369) are a functional update
  \<^verbatim>\<open>setPackets(current => ...)\<close>: it looks the packet up in \<^verbatim>\<open>current\<close>, runs the
  handler when the packet is there, and returns \<^verbatim>\<open>current\<close> in every case. The handler
  runs inside the update, so the list that the update returns replaces what the
  handler's own \<^verbatim>\<open>setPackets\<close> filter left: after the callback the packets are the ones
  it started from, while the changes of the handler to the two nodes stay. \<open>rnd\<close> and
  \<open>now\<close> are the random string and the clock value that the callback draws, if it draws
  one.
\<close>

fun fire :: "Timer \<Rightarrow> string \<Rightarrow> int \<Rightarrow> World \<Rightarrow> World \<times> Timer list" where
  "fire (Arrival snap packet) rnd now w =
     (let current = packets w
      in case find (\<lambda>p. pkt_id p = pkt_id packet) current of
           Some exists \<Rightarrow>
             (let (w1, ts) = processPacketArrival snap packet rnd w
              in (w1\<lparr>packets := current\<rparr>, ts))
         | None \<Rightarrow> (w\<lparr>packets := current\<rparr>, []))"
| "fire (ArrivalRef packet) rnd now w =
     (let current = packets w
      in case find (\<lambda>p. pkt_id p = pkt_id packet) current of
           Some exists \<Rightarrow>
             (let (w1, ts) = handleArrival packet rnd w
              in (w1\<lparr>packets := current\<rparr>, ts))
         | None \<Rightarrow> (w\<lparr>packets := current\<rparr>, []))"
| "fire (SendLater snap from flg pl overrideSeq overrideAck) rnd now w =
     sendPacketWithSchedule snap from flg pl overrideSeq overrideAck rnd now w"
| "fire NoAction rnd now w = (w, [])"

text \<open>
  The page binds the handlers of the latest render to its buttons
  (\<^verbatim>\<open>onClick={handleConnect}\<close>, \<^verbatim>\<open>onClick={handleDisconnect}\<close>, lines 440 and 447)
  and to the packets on display (\<^verbatim>\<open>onDropPacket={handleDropPacket}\<close>, line 471), so
  an action of the user runs the handler with the current state as its render.
\<close>

definition connect :: "string \<Rightarrow> int \<Rightarrow> World \<Rightarrow> World \<times> Timer list" where
  "connect rnd now w = handleConnect w rnd now w"

definition disconnect :: "string \<Rightarrow> int \<Rightarrow> World \<Rightarrow> World \<times> Timer list" where
  "disconnect rnd now w = handleDisconnect w rnd now w"

definition dropPacket :: "string \<Rightarrow> World \<Rightarrow> ReturnValue \<times> World" where
  "dropPacket i w = handleDropPacket w i w"

section \<open>Notions used in the statements\<close>

text \<open>The node of a role: \<^verbatim>\<open>role === 'CLIENT' ? client : server\<close>.\<close>

definition node :: "Endpoint \<Rightarrow> World \<Rightarrow> NodeState" where
  "node r w = (if r = CLIENT then client w else server w)"

text \<open>
  The \<^verbatim>\<open>role\<close> fields hold what \<^verbatim>\<open>useState\<close> put there; no update writes them.
\<close>

definition roles_ok :: "World \<Rightarrow> bool" where
  "roles_ok w = (role (client w) = CLIENT \<and> role (server w) = SERVER)"

text \<open>
  The transition tables of the specification (section 4.2), row by row: whether a
  packet \<open>p\<close> arriving at the node \<open>n\<close> of role \<open>r\<close> has a matching row. This
  definition follows the words of the specification, not the code.
\<close>

definition spec_transition_row :: "Endpoint \<Rightarrow> NodeState \<Rightarrow> Packet \<Rightarrow> bool" where
  "spec_transition_row r n p =
     (if r = SERVER then
        (connectionState n = LISTEN \<and> flag p = SYN) \<or>
        (connectionState n = SYN_RCVD \<and> flag p = ACK \<and> ack p = seq n) \<or>
        (connectionState n = ESTABLISHED \<and> flag p = DATA) \<or>
        (connectionState n = ESTABLISHED \<and> flag p = FIN) \<or>
        flag p = RST
      else
        (connectionState n = SYN_SENT \<and> flag p = SYN_ACK) \<or>
        (connectionState n = ESTABLISHED \<and> flag p = ACK))"

section \<open>Example states\<close>

text \<open>
  Concrete states and packets at which the theorems below are instantiated: the server
  waiting for the final ACK, and both nodes with an open connection.
\<close>

definition ex_syn_rcvd :: World where
  "ex_syn_rcvd =
     \<lparr>client = \<lparr>role = CLIENT, connectionState = SYN_SENT, seq = 101,
                lastAckReceived = 0, sessionId = None, logs = []\<rparr>,
      server = \<lparr>role = SERVER, connectionState = SYN_RCVD, seq = 5001,
                lastAckReceived = 101, sessionId = Some ''SES-1'', logs = []\<rparr>,
      packets = []\<rparr>"

definition ex_established :: World where
  "ex_established =
     \<lparr>client = \<lparr>role = CLIENT, connectionState = ESTABLISHED, seq = 101,
                lastAckReceived = 5001, sessionId = Some ''SES-1'', logs = []\<rparr>,
      server = \<lparr>role = SERVER, connectionState = ESTABLISHED, seq = 5001,
                lastAckReceived = 101, sessionId = Some ''SES-1'', logs = []\<rparr>,
      packets = []\<rparr>"

definition ex_packet :: "Endpoint \<Rightarrow> PacketFlag \<Rightarrow> int \<Rightarrow> int \<Rightarrow> Packet" where
  "ex_packet dst flg sq ak =
     \<lparr>pkt_id = ''p1'', source = (if dst = CLIENT then SERVER else CLIENT), destination = dst,
      flag = flg, pkt_seq = sq, ack = ak, payload = [], pkt_sessionId = None,
      timestamp = 0, dropped = None\<rparr>"

section \<open>Basic facts\<close>


lemma client_addLog:
  "client (addLog r m t w) =
     (if r = CLIENT
      then (client w)\<lparr>logs := logs (client w) @ [\<lparr>message = m, entry_type = t\<rparr>]\<rparr>
      else client w)"
  by (simp add: addLog_def Let_def)

lemma server_addLog:
  "server (addLog r m t w) =
     (if r = CLIENT then server w
      else (server w)\<lparr>logs := logs (server w) @ [\<lparr>message = m, entry_type = t\<rparr>]\<rparr>)"
  by (simp add: addLog_def Let_def)

lemma packets_addLog: "packets (addLog r m t w) = packets w"
  by (simp add: addLog_def Let_def)

lemmas addLog_simps = client_addLog server_addLog packets_addLog

lemma find_filter_neq: "find (\<lambda>p. f p = i) (filter (\<lambda>p. f p \<noteq> i) ps) = None"
  by (induction ps) auto

lemma filter_id_if_absent:
  "find (\<lambda>p. f p = i) ps = None \<Longrightarrow> filter (\<lambda>p. f p \<noteq> i) ps = ps"
  by (induction ps) (auto split: if_splits)

lemma packets_processPacketArrival:
  "packets (fst (processPacketArrival snap p rnd w)) =
     filter (\<lambda>q. pkt_id q \<noteq> pkt_id p) (packets w)"
  by (simp add: processPacketArrival_def serverStateMachine_def clientStateMachine_def Let_def
      addLog_simps split: prod.splits if_splits)

lemma fst_sendPacketWithSchedule:
  "fst (sendPacketWithSchedule snap from flg pl os oa rnd now w) =
     sendPacket snap from flg pl os oa rnd now w"
  by (simp add: sendPacketWithSchedule_def sendPacket_def Let_def)

text \<open>No function writes a \<^verbatim>\<open>role\<close> field.\<close>

lemma roles_ok_addLog: "roles_ok (addLog r m t w) = roles_ok w"
  by (simp add: roles_ok_def addLog_simps)

lemma roles_ok_sendPacket:
  "roles_ok (sendPacket snap from flg pl os oa rnd now w) = roles_ok w"
  by (simp add: sendPacket_def Let_def roles_ok_def addLog_simps)

lemma roles_ok_processPacketArrival:
  "roles_ok (fst (processPacketArrival snap p rnd w)) = roles_ok w"
  by (simp add: processPacketArrival_def serverStateMachine_def clientStateMachine_def Let_def
      roles_ok_def addLog_simps split: prod.splits)

lemma roles_ok_processPacketArrivalRef_current:
  "roles_ok (fst (processPacketArrivalRef_current snap p rnd w)) = roles_ok w"
  by (simp add: processPacketArrivalRef_current_def serverLogic_def clientLogic_def Let_def
      roles_ok_def addLog_simps split: prod.splits)

lemma roles_ok_packets_update: "roles_ok (w\<lparr>packets := ps\<rparr>) = roles_ok w"
  by (simp add: roles_ok_def)

lemma roles_ok_fire: "roles_ok (fst (fire t rnd now w)) = roles_ok w"
  by (cases t)
     (simp_all add: roles_ok_processPacketArrival roles_ok_processPacketArrivalRef_current
       handleArrival_def fst_sendPacketWithSchedule roles_ok_sendPacket
       roles_ok_packets_update Let_def split_beta split: option.splits)

text \<open>The callback of an arrival timer, case by case.\<close>

lemma fire_Arrival_absent:
  "find (\<lambda>q. pkt_id q = pkt_id p) (packets w) = None \<Longrightarrow>
     fire (Arrival snap p) rnd now w = (w, [])"
  by (simp add: Let_def)

lemma fire_Arrival_present:
  "find (\<lambda>q. pkt_id q = pkt_id p) (packets w) = Some q \<Longrightarrow>
     fire (Arrival snap p) rnd now w =
       ((fst (processPacketArrival snap p rnd w))\<lparr>packets := packets w\<rparr>,
        snd (processPacketArrival snap p rnd w))"
  by (simp add: Let_def split_beta)

lemma packets_fire_Arrival: "packets (fst (fire (Arrival snap p) rnd now w)) = packets w"
  by (cases "find (\<lambda>q. pkt_id q = pkt_id p) (packets w)")
     (simp_all add: Let_def split_beta)

lemma roles_ok_handleConnect: "roles_ok (fst (handleConnect snap rnd now w)) = roles_ok w"
  by (simp add: handleConnect_def fst_sendPacketWithSchedule roles_ok_sendPacket)
     (simp add: roles_ok_def)

lemma roles_ok_handleDisconnect: "roles_ok (fst (handleDisconnect snap rnd now w)) = roles_ok w"
  by (simp add: handleDisconnect_def sendPacketWithSchedule_def schedulePacketArrival_def
      Let_def roles_ok_def addLog_simps)

lemma roles_ok_handleDropPacket: "roles_ok (snd (handleDropPacket snap i w)) = roles_ok w"
  by (simp add: handleDropPacket_def Let_def roles_ok_def addLog_simps split: option.splits)

lemma roles_ok_initial: "roles_ok initial"
  by (simp add: roles_ok_def initial_def)

text \<open>A FIN never changes the client, whoever receives it; a drop writes logs only.\<close>

lemma client_kept_by_fin:
  assumes "flag p = FIN"
  shows "connectionState (client (fst (processPacketArrival snap p rnd w)))
           = connectionState (client w) \<and>
         sessionId (client (fst (processPacketArrival snap p rnd w))) = sessionId (client w)"
  using assms
  by (simp add: processPacketArrival_def serverStateMachine_def clientStateMachine_def Let_def
      addLog_simps split: prod.splits)

lemma client_kept_by_drop:
  "connectionState (client (snd (handleDropPacket snap i w))) = connectionState (client w) \<and>
   sessionId (client (snd (handleDropPacket snap i w))) = sessionId (client w)"
  by (simp add: handleDropPacket_def Let_def addLog_simps split: option.splits)

section \<open>The handshake\<close>

text \<open>
  Claim C1 says that \<^verbatim>\<open>connect()\<close>, followed by the delivery of the SYN, of the
  server's SYN_ACK reply and of the client's ACK reply, leaves both nodes ESTABLISHED
  with the same session id. The program cannot run that sequence. From the initial
  state, \<^verbatim>\<open>connect()\<close> sets one timer, the arrival of the SYN; when it fires, the
  handler is \<^verbatim>\<open>processPacketArrival\<close>, which moves the server to SYN_RCVD and
  allocates a session, and whose reply timer has an empty body. Afterwards the only
  packet in the list is the SYN itself and the only pending timer does nothing: no
  SYN_ACK is ever sent, and the client stays in SYN_SENT without a session. This holds
  for every random draw and every clock value.
\<close>

theorem handshake_stalls_after_syn:
  "case connect rnd now initial of
     (w1, ts1) \<Rightarrow>
       (case ts1 of
          [t] \<Rightarrow>
            (case fire t rnd' now' w1 of
               (w2, ts2) \<Rightarrow>
                 connectionState (server w2) = SYN_RCVD \<and>
                 sessionId (server w2) = Some (''SES-'' @ rnd') \<and>
                 connectionState (client w2) = SYN_SENT \<and>
                 sessionId (client w2) = None \<and>
                 map flag (packets w2) = [SYN] \<and>
                 ts2 = [NoAction] \<and>
                 fire NoAction rnd'' now'' w2 = (w2, []))
        | _ \<Rightarrow> False)"
  by (simp add: connect_def handleConnect_def sendPacketWithSchedule_def
      schedulePacketArrival_def initial_def processPacketArrival_def serverStateMachine_def
      clientStateMachine_def Let_def addLog_simps)

text \<open>
  The second handler, \<^verbatim>\<open>processPacketArrivalRef.current\<close>, has the replies, but it is
  reached through \<^verbatim>\<open>schedulePacketArrivalRef.current\<close> only, which nothing calls. Were
  the SYN scheduled there, the reply would be sent by \<^verbatim>\<open>sendPacketWithSchedule\<close> of
  the render before the server got its session: the SYN_ACK carries no session id, its
  arrival goes through \<^verbatim>\<open>processPacketArrival\<close> again, the client ends ESTABLISHED
  without a session, no ACK is sent and the server stays in SYN_RCVD.
\<close>

lemma handshake_through_ref_scheduler:
  "case connect rnd now initial of
     (w1, ts1) \<Rightarrow>
       (case fire (ArrivalRef (hd (packets w1))) rnd1 now1 w1 of
          (w2, ts2) \<Rightarrow>
            (case fire (hd ts2) rnd2 now2 w2 of
               (w3, ts3) \<Rightarrow>
                 (case fire (hd ts3) rnd3 now3 w3 of
                    (w4, ts4) \<Rightarrow>
                      map flag (packets w3) = [SYN, SYN_ACK] \<and>
                      pkt_sessionId (last (packets w3)) = None \<and>
                      connectionState (client w4) = ESTABLISHED \<and>
                      sessionId (client w4) = None \<and>
                      connectionState (server w4) = SYN_RCVD \<and>
                      sessionId (server w4) = Some (''SES-'' @ rnd1) \<and>
                      map flag (packets w4) = [SYN, SYN_ACK] \<and> ts4 = [])))"
  by (simp add: connect_def handleConnect_def sendPacketWithSchedule_def
      schedulePacketArrival_def initial_def handleArrival_def
      processPacketArrivalRef_current_def serverLogic_def clientLogic_def
      processPacketArrival_def serverStateMachine_def clientStateMachine_def Let_def
      addLog_simps or_none_def)


text \<open>
  For a render that shows the server's connection state and \<^verbatim>\<open>seq\<close> as they are, the
  handler does what the claim says: the server becomes ESTABLISHED exactly when the
  packet's \<^verbatim>\<open>ack\<close> equals its \<^verbatim>\<open>seq\<close>, and an ACK that fails the guard leaves the
  server's connection state, counters and session unchanged and sends nothing.
\<close>

lemma syn_rcvd_ack_guard_current_render:
  assumes "role (server snap) = SERVER" and "destination packet = SERVER"
    and "flag packet = ACK"
    and "connectionState (server snap) = SYN_RCVD"
    and "connectionState (server w) = SYN_RCVD"
    and "seq (server snap) = seq (server w)"
  shows "(connectionState (server (fst (processPacketArrival snap packet rnd w))) = ESTABLISHED)
           = (ack packet = seq (server w)) \<and>
         (ack packet \<noteq> seq (server w) \<longrightarrow>
            connectionState (server (fst (processPacketArrival snap packet rnd w))) = SYN_RCVD \<and>
            seq (server (fst (processPacketArrival snap packet rnd w))) = seq (server w) \<and>
            lastAckReceived (server (fst (processPacketArrival snap packet rnd w)))
              = lastAckReceived (server w) \<and>
            sessionId (server (fst (processPacketArrival snap packet rnd w)))
              = sessionId (server w) \<and>
            snd (processPacketArrival snap packet rnd w) = [])"
  using assms
  by (simp add: processPacketArrival_def serverStateMachine_def clientStateMachine_def Let_def
      addLog_simps)

section \<open>Acknowledgment bookkeeping\<close>

text \<open>
  Claim C3 as stated (after every accepted packet with a flag among SYN, SYN_ACK, FIN
  and DATA the receiver's \<^verbatim>\<open>lastAckReceived\<close> is the packet's \<^verbatim>\<open>seq\<close> plus 1) fails for
  FIN: the ESTABLISHED server accepts a FIN with \<^verbatim>\<open>seq\<close> 101 and closes, and its
  \<^verbatim>\<open>lastAckReceived\<close> stays 101.
\<close>

theorem fin_keeps_lastAckReceived_counterexample:
  "connectionState (server (fst (fire (Arrival ex_established (ex_packet SERVER FIN 101 5001))
       ''R'' 0 (ex_established\<lparr>packets := [ex_packet SERVER FIN 101 5001]\<rparr>)))) = CLOSED \<and>
   lastAckReceived (server (fst (fire (Arrival ex_established (ex_packet SERVER FIN 101 5001))
       ''R'' 0 (ex_established\<lparr>packets := [ex_packet SERVER FIN 101 5001]\<rparr>))))
     \<noteq> pkt_seq (ex_packet SERVER FIN 101 5001) + 1"
  by (simp add: ex_established_def ex_packet_def processPacketArrival_def
      serverStateMachine_def clientStateMachine_def Let_def addLog_simps)

text \<open>
  Claim C3, amended: a SYN accepted by the LISTEN server, a DATA accepted by the
  ESTABLISHED server and a SYN_ACK accepted by the SYN_SENT client set the receiver's
  \<^verbatim>\<open>lastAckReceived\<close> to the packet's \<^verbatim>\<open>seq\<close> plus 1; a FIN accepted by the ESTABLISHED
  server closes the connection and leaves \<^verbatim>\<open>lastAckReceived\<close> as it was. The state in
  which a packet is accepted is the one the handler's render shows.
\<close>

theorem lastAckReceived_after_accepted_packet:
  assumes "roles_ok snap"
  shows "(destination p = SERVER \<and> flag p = SYN \<and> connectionState (server snap) = LISTEN \<longrightarrow>
            lastAckReceived (server (fst (processPacketArrival snap p rnd w))) = pkt_seq p + 1) \<and>
         (destination p = SERVER \<and> flag p = DATA \<and>
            connectionState (server snap) = ESTABLISHED \<longrightarrow>
            lastAckReceived (server (fst (processPacketArrival snap p rnd w))) = pkt_seq p + 1) \<and>
         (destination p = CLIENT \<and> flag p = SYN_ACK \<and>
            connectionState (client snap) = SYN_SENT \<longrightarrow>
            lastAckReceived (client (fst (processPacketArrival snap p rnd w))) = pkt_seq p + 1) \<and>
         (destination p = SERVER \<and> flag p = FIN \<and>
            connectionState (server snap) = ESTABLISHED \<longrightarrow>
            connectionState (server (fst (processPacketArrival snap p rnd w))) = CLOSED \<and>
            lastAckReceived (server (fst (processPacketArrival snap p rnd w)))
              = lastAckReceived (server w))"
  using assms
  by (simp add: roles_ok_def processPacketArrival_def serverStateMachine_def
      clientStateMachine_def Let_def addLog_simps)

theorem lastAckReceived_after_accepted_packet_witness:
  "roles_ok initial \<and> roles_ok ex_established \<and> roles_ok ex_syn_rcvd \<and>
   connectionState (server initial) = LISTEN \<and>
   lastAckReceived (server (fst (processPacketArrival initial
      (ex_packet SERVER SYN 100 0) ''R'' initial))) = 101 \<and>
   connectionState (server ex_established) = ESTABLISHED \<and>
   lastAckReceived (server (fst (processPacketArrival ex_established
      (ex_packet SERVER DATA 101 5001) ''R'' ex_established))) = 102 \<and>
   connectionState (client ex_syn_rcvd) = SYN_SENT \<and>
   lastAckReceived (client (fst (processPacketArrival ex_syn_rcvd
      (ex_packet CLIENT SYN_ACK 5000 101) ''R'' ex_syn_rcvd))) = 5001 \<and>
   connectionState (server (fst (processPacketArrival ex_established
      (ex_packet SERVER FIN 101 5001) ''R'' ex_established))) = CLOSED \<and>
   lastAckReceived (server (fst (processPacketArrival ex_established
      (ex_packet SERVER FIN 101 5001) ''R'' ex_established))) = 101"
proof -
  have r1: "roles_ok initial" and r2: "roles_ok ex_established" and r3: "roles_ok ex_syn_rcvd"
    by (simp_all add: roles_ok_def initial_def ex_established_def ex_syn_rcvd_def)
  have s1: "connectionState (server initial) = LISTEN"
    and s2: "connectionState (server ex_established) = ESTABLISHED"
    and s3: "connectionState (client ex_syn_rcvd) = SYN_SENT"
    and s4: "lastAckReceived (server ex_established) = 101"
    by (simp_all add: initial_def ex_established_def ex_syn_rcvd_def)
  show ?thesis
    using lastAckReceived_after_accepted_packet
            [OF r1, of "ex_packet SERVER SYN 100 0" "''R''" initial]
          lastAckReceived_after_accepted_packet
            [OF r2, of "ex_packet SERVER DATA 101 5001" "''R''" ex_established]
          lastAckReceived_after_accepted_packet
            [OF r3, of "ex_packet CLIENT SYN_ACK 5000 101" "''R''" ex_syn_rcvd]
          lastAckReceived_after_accepted_packet
            [OF r2, of "ex_packet SERVER FIN 101 5001" "''R''" ex_established]
          r1 r2 r3 s1 s2 s3 s4
    by (simp add: ex_packet_def)
qed

section \<open>RST\<close>

text \<open>
  Claim C4 as stated (an RST closes the server in every state and clears its session
  and counters) fails: neither handler has a branch for RST. Delivered to the
  ESTABLISHED server, an RST leaves it ESTABLISHED with its session.
\<close>

theorem rst_counterexample:
  "connectionState (server (fst (fire (Arrival ex_established (ex_packet SERVER RST 101 5001))
       ''R'' 0 (ex_established\<lparr>packets := [ex_packet SERVER RST 101 5001]\<rparr>)))) \<noteq> CLOSED \<and>
   sessionId (server (fst (fire (Arrival ex_established (ex_packet SERVER RST 101 5001))
       ''R'' 0 (ex_established\<lparr>packets := [ex_packet SERVER RST 101 5001]\<rparr>)))) \<noteq> None"
  by (simp add: ex_established_def ex_packet_def processPacketArrival_def
      serverStateMachine_def clientStateMachine_def Let_def addLog_simps)

text \<open>
  Claim C4, amended: in every server state, the delivery of an RST to the server leaves
  connection state, session id, \<^verbatim>\<open>seq\<close> and \<^verbatim>\<open>lastAckReceived\<close> of the server as they
  were, leaves the client untouched and sends nothing; the handler appends one traffic
  entry to the server's log. This holds of the handler and of the timer callback that
  delivers the packet, for every render.
\<close>

theorem rst_is_ignored:
  assumes "roles_ok snap" and "destination p = SERVER" and "flag p = RST"
  shows "connectionState (server (fst (fire (Arrival snap p) rnd now w)))
           = connectionState (server w) \<and>
         sessionId (server (fst (fire (Arrival snap p) rnd now w))) = sessionId (server w) \<and>
         seq (server (fst (fire (Arrival snap p) rnd now w))) = seq (server w) \<and>
         lastAckReceived (server (fst (fire (Arrival snap p) rnd now w)))
           = lastAckReceived (server w) \<and>
         client (fst (fire (Arrival snap p) rnd now w)) = client w \<and>
         snd (fire (Arrival snap p) rnd now w) = [] \<and>
         server (fst (processPacketArrival snap p rnd w)) =
           (server w)\<lparr>logs := logs (server w) @
              [\<lparr>message = ''Received RST (Seq='' @ show_int (pkt_seq p) @ '')'',
                entry_type = Traffic\<rparr>]\<rparr> \<and>
         client (fst (processPacketArrival snap p rnd w)) = client w \<and>
         snd (processPacketArrival snap p rnd w) = []"
proof -
  have handler: "server (fst (processPacketArrival snap p rnd w)) =
           (server w)\<lparr>logs := logs (server w) @
              [\<lparr>message = ''Received RST (Seq='' @ show_int (pkt_seq p) @ '')'',
                entry_type = Traffic\<rparr>]\<rparr> \<and>
         client (fst (processPacketArrival snap p rnd w)) = client w \<and>
         snd (processPacketArrival snap p rnd w) = []"
    using assms
    by (simp add: roles_ok_def processPacketArrival_def serverStateMachine_def
        clientStateMachine_def Let_def addLog_simps)
  show ?thesis
  proof (cases "find (\<lambda>q. pkt_id q = pkt_id p) (packets w)")
    case None
    then show ?thesis
      using handler by (simp add: fire_Arrival_absent del: fire.simps)
  next
    case (Some q)
    then show ?thesis
      using handler by (simp add: fire_Arrival_present [OF Some] del: fire.simps)
  qed
qed

theorem rst_is_ignored_witness:
  "roles_ok ex_established \<and>
   destination (ex_packet SERVER RST 101 5001) = SERVER \<and>
   flag (ex_packet SERVER RST 101 5001) = RST \<and>
   connectionState (server (fst (fire (Arrival ex_established (ex_packet SERVER RST 101 5001))
      ''R'' 0 (ex_established\<lparr>packets := [ex_packet SERVER RST 101 5001]\<rparr>)))) = ESTABLISHED \<and>
   sessionId (server (fst (fire (Arrival ex_established (ex_packet SERVER RST 101 5001))
      ''R'' 0 (ex_established\<lparr>packets := [ex_packet SERVER RST 101 5001]\<rparr>))))
     = Some ''SES-1'' \<and>
   seq (server (fst (fire (Arrival ex_established (ex_packet SERVER RST 101 5001))
      ''R'' 0 (ex_established\<lparr>packets := [ex_packet SERVER RST 101 5001]\<rparr>)))) = 5001 \<and>
   lastAckReceived (server (fst (fire (Arrival ex_established (ex_packet SERVER RST 101 5001))
      ''R'' 0 (ex_established\<lparr>packets := [ex_packet SERVER RST 101 5001]\<rparr>)))) = 101"
proof -
  let ?P = "ex_packet SERVER RST 101 5001"
  let ?W = "ex_established\<lparr>packets := [?P]\<rparr>"
  have r: "roles_ok ex_established"
    by (simp add: roles_ok_def ex_established_def)
  have d: "destination ?P = SERVER" and f: "flag ?P = RST"
    by (simp_all add: ex_packet_def)
  have fields: "connectionState (server ex_established) = ESTABLISHED"
    "sessionId (server ex_established) = Some ''SES-1''"
    "seq (server ex_established) = 5001" "lastAckReceived (server ex_established) = 101"
    by (simp_all add: ex_established_def)
  have kept: "connectionState (server (fst (fire (Arrival ex_established ?P) ''R'' 0 ?W)))
           = connectionState (server ?W) \<and>
         sessionId (server (fst (fire (Arrival ex_established ?P) ''R'' 0 ?W)))
           = sessionId (server ?W) \<and>
         seq (server (fst (fire (Arrival ex_established ?P) ''R'' 0 ?W))) = seq (server ?W) \<and>
         lastAckReceived (server (fst (fire (Arrival ex_established ?P) ''R'' 0 ?W)))
           = lastAckReceived (server ?W)"
    using rst_is_ignored [OF r d f, of "''R''" 0 ?W] by blast
  show ?thesis
    using kept r d f by (simp add: fields del: fire.simps)
qed

text \<open>The unused second handler ignores an RST in the same way.\<close>

lemma ref_handler_ignores_rst:
  assumes "roles_ok snap" and "destination p = SERVER" and "flag p = RST"
  shows "processPacketArrivalRef_current snap p rnd w =
           (w\<lparr>packets := filter (\<lambda>q. pkt_id q \<noteq> pkt_id p) (packets w),
              server := (server w)\<lparr>logs := logs (server w) @
                [\<lparr>message = ''Received RST'', entry_type = Traffic\<rparr>]\<rparr>\<rparr>, [])"
  using assms
  by (simp add: roles_ok_def processPacketArrivalRef_current_def serverLogic_def
      clientLogic_def Let_def addLog_def)

section \<open>Delivery and drop\<close>

text \<open>
  Claim C5 says that a delivery removes the packet from the in-flight set, so that a
  second delivery of the same packet id is a no-op on both nodes. On the code the
  delivery does not remove the packet: the timer callback returns the list it started
  from. After \<^verbatim>\<open>connect()\<close> and the arrival of the SYN (draw \<^verbatim>\<open>X\<close>) the SYN is still
  in the list and the server has session \<^verbatim>\<open>SES-X\<close> and two log entries; when the same
  callback runs a second time (draw \<^verbatim>\<open>Y\<close>) it finds the packet and runs the handler
  again, and the server has session \<^verbatim>\<open>SES-Y\<close> and four log entries.
\<close>

theorem delivered_packet_stays_in_flight:
  "case connect ''a'' 0 initial of (w1, ts1) \<Rightarrow>
   (case fire (hd ts1) ''X'' 3 w1 of (w2, ts2) \<Rightarrow>
    (case fire (hd ts1) ''Y'' 4 w2 of (w3, ts3) \<Rightarrow>
       ts1 = [Arrival initial (hd (packets w1))] \<and>
       map pkt_id (packets w1) = [''a''] \<and>
       map flag (packets w1) = [SYN] \<and>
       connectionState (server w2) = SYN_RCVD \<and>
       sessionId (server w2) = Some ''SES-X'' \<and>
       length (logs (server w2)) = 2 \<and>
       map pkt_id (packets w2) = [''a''] \<and>
       sessionId (server w3) = Some ''SES-Y'' \<and>
       length (logs (server w3)) = 4 \<and>
       map pkt_id (packets w3) = [''a'']))"
  by (simp add: connect_def handleConnect_def sendPacketWithSchedule_def
      schedulePacketArrival_def initial_def processPacketArrival_def serverStateMachine_def
      clientStateMachine_def Let_def addLog_simps or_none_def)

text \<open>
  What holds of the claim: every send sets exactly one arrival timer, the callback of
  an arrival timer never changes the list of packets, and once a packet has been
  dropped its arrival timer changes nothing and sends nothing.
\<close>

lemma one_arrival_timer_per_send:
  "snd (sendPacketWithSchedule snap from flg pl os oa rnd now w) =
     [Arrival snap (last (packets (fst (sendPacketWithSchedule snap from flg pl os oa rnd now
                                          w))))]"
  by (cases "from"; cases flg)
     (simp_all add: sendPacketWithSchedule_def schedulePacketArrival_def Let_def addLog_simps)

lemma dropped_packet_is_not_delivered:
  "fire (Arrival snap p) rnd now (snd (handleDropPacket snap' (pkt_id p) w))
     = (snd (handleDropPacket snap' (pkt_id p) w), [])"
proof -
  have "find (\<lambda>q. pkt_id q = pkt_id p)
          (packets (snd (handleDropPacket snap' (pkt_id p) w))) = None"
    by (simp add: handleDropPacket_def Let_def addLog_simps find_filter_neq
        split: option.splits)
  then show ?thesis
    by (rule fire_Arrival_absent)
qed

text \<open>
  Claim C6 as stated (\<^verbatim>\<open>drop\<close> returns true for a packet in flight and false otherwise)
  fails on the return value: \<^verbatim>\<open>handleDropPacket\<close> has no \<^verbatim>\<open>return\<close> statement, so a call
  evaluates to \<^verbatim>\<open>undefined\<close>, also for a packet in flight.
\<close>

theorem drop_returns_no_boolean_counterexample:
  "fst (dropPacket ''p1'' (ex_established\<lparr>packets := [ex_packet SERVER DATA 101 5001]\<rparr>))
     \<noteq> Boolean True"
  by (simp add: dropPacket_def handleDropPacket_def ex_packet_def Let_def)

text \<open>
  Claim C6, amended: \<^verbatim>\<open>handleDropPacket\<close> returns no value. Called from the page with
  the id of a packet in the list of packets, it removes the packet from the list and
  appends exactly one error entry to the log of the packet's source, and leaves the
  other node as it was; called with an id that no packet in the list has, it has no
  effect. After the call no packet with that id is in the list, and the arrival timer
  of a packet with that id changes nothing and sends nothing, so that a packet dropped
  before its deadline causes neither a transition nor a log entry on the receiving
  side.
\<close>

theorem drop_effect:
  "(find (\<lambda>p. pkt_id p = i) (packets w) = Some pkt \<longrightarrow>
      dropPacket i w =
        (Undefined,
         addLog (source pkt)
           (''Packet '' @ flag_str (flag pkt) @ '' lost/dropped in transit!'') Error
           (w\<lparr>packets := filter (\<lambda>p. pkt_id p \<noteq> i) (packets w)\<rparr>)) \<and>
      logs (node (source pkt) (snd (dropPacket i w))) =
        logs (node (source pkt) w) @
          [\<lparr>message = ''Packet '' @ flag_str (flag pkt) @ '' lost/dropped in transit!'',
            entry_type = Error\<rparr>] \<and>
      (\<forall>r. r \<noteq> source pkt \<longrightarrow> node r (snd (dropPacket i w)) = node r w)) \<and>
   (find (\<lambda>p. pkt_id p = i) (packets w) = None \<longrightarrow> dropPacket i w = (Undefined, w)) \<and>
   find (\<lambda>p. pkt_id p = i) (packets (snd (dropPacket i w))) = None \<and>
   (pkt_id p = i \<longrightarrow>
      fire (Arrival snap p) rnd now (snd (dropPacket i w)) = (snd (dropPacket i w), []))"
proof -
  have gone: "find (\<lambda>p. pkt_id p = i) (packets (snd (dropPacket i w))) = None"
    by (simp add: dropPacket_def handleDropPacket_def Let_def addLog_simps find_filter_neq
        split: option.splits)
  have absent: "find (\<lambda>p. pkt_id p = i) (packets w) = None \<Longrightarrow> dropPacket i w = (Undefined, w)"
    by (simp add: dropPacket_def handleDropPacket_def Let_def filter_id_if_absent)
  have present: "find (\<lambda>p. pkt_id p = i) (packets w) = Some pkt \<Longrightarrow>
      dropPacket i w =
        (Undefined,
         addLog (source pkt)
           (''Packet '' @ flag_str (flag pkt) @ '' lost/dropped in transit!'') Error
           (w\<lparr>packets := filter (\<lambda>p. pkt_id p \<noteq> i) (packets w)\<rparr>))"
    by (simp add: dropPacket_def handleDropPacket_def Let_def)
  have entry: "find (\<lambda>p. pkt_id p = i) (packets w) = Some pkt \<Longrightarrow>
      logs (node (source pkt) (snd (dropPacket i w))) =
        logs (node (source pkt) w) @
          [\<lparr>message = ''Packet '' @ flag_str (flag pkt) @ '' lost/dropped in transit!'',
            entry_type = Error\<rparr>]"
    by (simp add: present node_def addLog_simps)
  have other: "find (\<lambda>p. pkt_id p = i) (packets w) = Some pkt \<Longrightarrow> r \<noteq> source pkt \<Longrightarrow>
      node r (snd (dropPacket i w)) = node r w" for r
    by (cases r; cases "source pkt") (simp_all add: present node_def addLog_simps)
  have later: "pkt_id p = i \<Longrightarrow>
      fire (Arrival snap p) rnd now (snd (dropPacket i w)) = (snd (dropPacket i w), [])"
    using gone by simp
  show ?thesis
    using gone absent present entry other later by blast
qed

theorem drop_effect_witness:
  "find (\<lambda>p. pkt_id p = ''p1'')
     (packets (ex_established\<lparr>packets := [ex_packet SERVER DATA 101 5001]\<rparr>))
     = Some (ex_packet SERVER DATA 101 5001) \<and>
   source (ex_packet SERVER DATA 101 5001) = CLIENT \<and>
   logs (client (snd (dropPacket ''p1''
      (ex_established\<lparr>packets := [ex_packet SERVER DATA 101 5001]\<rparr>)))) =
     [\<lparr>message = ''Packet DATA lost/dropped in transit!'', entry_type = Error\<rparr>] \<and>
   server (snd (dropPacket ''p1''
      (ex_established\<lparr>packets := [ex_packet SERVER DATA 101 5001]\<rparr>))) = server ex_established \<and>
   fire (Arrival ex_established (ex_packet SERVER DATA 101 5001)) ''R'' 0
      (snd (dropPacket ''p1'' (ex_established\<lparr>packets := [ex_packet SERVER DATA 101 5001]\<rparr>)))
     = (snd (dropPacket ''p1''
          (ex_established\<lparr>packets := [ex_packet SERVER DATA 101 5001]\<rparr>)), []) \<and>
   find (\<lambda>p. pkt_id p = ''zz'') (packets ex_established) = None \<and>
   dropPacket ''zz'' ex_established = (Undefined, ex_established)"
proof -
  let ?P = "ex_packet SERVER DATA 101 5001"
  let ?W = "ex_established\<lparr>packets := [?P]\<rparr>"
  have inflight: "find (\<lambda>p. pkt_id p = ''p1'') (packets ?W) = Some ?P"
    by (simp add: ex_packet_def)
  have src: "source ?P = CLIENT" and ident: "pkt_id ?P = ''p1''" and flg: "flag ?P = DATA"
    by (simp_all add: ex_packet_def)
  have unknown: "find (\<lambda>p. pkt_id p = ''zz'') (packets ex_established) = None"
    by (simp add: ex_established_def)
  have nolog: "logs (client ex_established) = []"
    by (simp add: ex_established_def)
  note known = drop_effect [of "''p1''" ?W ?P ?P ex_established "''R''" 0]
  have entry: "logs (node (source ?P) (snd (dropPacket ''p1'' ?W))) =
        logs (node (source ?P) ?W) @
          [\<lparr>message = ''Packet '' @ flag_str (flag ?P) @ '' lost/dropped in transit!'',
            entry_type = Error\<rparr>]"
    using known inflight by blast
  have other: "\<forall>r. r \<noteq> source ?P \<longrightarrow> node r (snd (dropPacket ''p1'' ?W)) = node r ?W"
    using known inflight by blast
  have later: "fire (Arrival ex_established ?P) ''R'' 0 (snd (dropPacket ''p1'' ?W))
                 = (snd (dropPacket ''p1'' ?W), [])"
    using known ident by blast
  have noop: "dropPacket ''zz'' ex_established = (Undefined, ex_established)"
    using drop_effect [of "''zz''" ex_established ?P ?P ex_established "''R''" 0] unknown
    by blast
  have c1: "logs (client (snd (dropPacket ''p1'' ?W))) =
     [\<lparr>message = ''Packet DATA lost/dropped in transit!'', entry_type = Error\<rparr>]"
    using entry by (simp add: src flg node_def nolog)
  have c2: "server (snd (dropPacket ''p1'' ?W)) = server ex_established"
    using other [rule_format, of SERVER] by (simp add: src node_def)
  show ?thesis
    using inflight src c1 c2 later unknown noop by blast
qed

section \<open>Packets without a transition\<close>

text \<open>
  Claim C7 says that a delivered packet whose flag has no row in the state of its
  receiver leaves connection state, \<^verbatim>\<open>seq\<close>, \<^verbatim>\<open>lastAckReceived\<close> and session id of the
  receiver unchanged. The handler decides on the state of the render in which the
  packet was sent, not on the state of the receiver at delivery, and the two differ in
  the following run: \<^verbatim>\<open>connect()\<close>, \<^verbatim>\<open>disconnect()\<close> and \<^verbatim>\<open>connect()\<close> again while
  the first SYN is in flight, then the three arrival timers in the order of the sends.
  The first SYN brings the server to SYN_RCVD with session \<^verbatim>\<open>SES-X\<close> and
  \<^verbatim>\<open>lastAckReceived\<close> 101; the FIN is ignored; when the second SYN, the last of the
  three packets, arrives the server is in SYN_RCVD, where the tables have no row for a
  SYN, and yet the server gets the new session \<^verbatim>\<open>SES-Z\<close> and \<^verbatim>\<open>lastAckReceived\<close> 103,
  because the render of the second \<^verbatim>\<open>connect()\<close> still showed the server in LISTEN.
\<close>

theorem stale_render_accepts_second_syn:
  "case connect ''a'' 0 initial of (w1, ts1) \<Rightarrow>
   (case disconnect ''b'' 1 w1 of (w2, ts2) \<Rightarrow>
    (case connect ''c'' 2 w2 of (w3, ts3) \<Rightarrow>
     (case fire (hd ts1) ''X'' 3 w3 of (w4, ts4) \<Rightarrow>
      (case fire (hd ts2) ''Y'' 4 w4 of (w5, ts5) \<Rightarrow>
       (case fire (hd ts3) ''Z'' 5 w5 of (w6, ts6) \<Rightarrow>
          connectionState (server w5) = SYN_RCVD \<and>
          sessionId (server w5) = Some ''SES-X'' \<and>
          lastAckReceived (server w5) = 101 \<and>
          map pkt_id (packets w5) = [''a'', ''b'', ''c''] \<and>
          map flag (packets w5) = [SYN, FIN, SYN] \<and>
          map destination (packets w5) = [SERVER, SERVER, SERVER] \<and>
          ts3 = [Arrival w2 (last (packets w5))] \<and>
          \<not> spec_transition_row SERVER (server w5) (last (packets w5)) \<and>
          connectionState (server w6) = SYN_RCVD \<and>
          sessionId (server w6) = Some ''SES-Z'' \<and>
          lastAckReceived (server w6) = 103)))))"
  by (simp add: connect_def disconnect_def handleConnect_def handleDisconnect_def
      sendPacketWithSchedule_def schedulePacketArrival_def initial_def INITIAL_SEQ_def
      processPacketArrival_def serverStateMachine_def clientStateMachine_def
      spec_transition_row_def Let_def addLog_simps or_none_def)

text \<open>
  What the handler does guarantee is the same statement for the state that its render
  shows: when the flag of the packet and the state of the receiver in the render match
  no row of the tables, the handler applies its filter to the list of packets (which
  the timer callback then puts back), appends the traffic entry to the receiver's log
  and does nothing else, so that connection state, \<^verbatim>\<open>seq\<close>, \<^verbatim>\<open>lastAckReceived\<close> and
  session id of both nodes stay as they were and no reply is sent.
\<close>

lemma unmatched_packet_is_ignored:
  assumes "roles_ok snap"
    and "\<not> spec_transition_row (destination p) (node (destination p) snap) p"
  shows "processPacketArrival snap p rnd w =
           (addLog (destination p)
              (''Received '' @ flag_str (flag p) @ '' (Seq='' @ show_int (pkt_seq p) @ '')'')
              Traffic
              (w\<lparr>packets := filter (\<lambda>q. pkt_id q \<noteq> pkt_id p) (packets w)\<rparr>), []) \<and>
         connectionState (node r (fst (processPacketArrival snap p rnd w)))
           = connectionState (node r w) \<and>
         seq (node r (fst (processPacketArrival snap p rnd w))) = seq (node r w) \<and>
         lastAckReceived (node r (fst (processPacketArrival snap p rnd w)))
           = lastAckReceived (node r w) \<and>
         sessionId (node r (fst (processPacketArrival snap p rnd w))) = sessionId (node r w) \<and>
         snd (processPacketArrival snap p rnd w) = []"
proof -
  have eq: "processPacketArrival snap p rnd w =
           (addLog (destination p)
              (''Received '' @ flag_str (flag p) @ '' (Seq='' @ show_int (pkt_seq p) @ '')'')
              Traffic
              (w\<lparr>packets := filter (\<lambda>q. pkt_id q \<noteq> pkt_id p) (packets w)\<rparr>), [])"
    using assms
    by (cases "destination p"; cases "flag p")
       (auto simp add: roles_ok_def spec_transition_row_def node_def processPacketArrival_def
         serverStateMachine_def clientStateMachine_def Let_def)
  show ?thesis
    by (simp add: eq node_def addLog_simps)
qed

lemma unmatched_packet_is_ignored_example:
  "roles_ok ex_established \<and>
   \<not> spec_transition_row (destination (ex_packet SERVER SYN 100 0))
       (node (destination (ex_packet SERVER SYN 100 0)) ex_established)
       (ex_packet SERVER SYN 100 0) \<and>
   connectionState (server (fst (processPacketArrival ex_established
      (ex_packet SERVER SYN 100 0) ''R'' ex_established))) = ESTABLISHED \<and>
   seq (server (fst (processPacketArrival ex_established
      (ex_packet SERVER SYN 100 0) ''R'' ex_established))) = 5001 \<and>
   lastAckReceived (server (fst (processPacketArrival ex_established
      (ex_packet SERVER SYN 100 0) ''R'' ex_established))) = 101 \<and>
   sessionId (server (fst (processPacketArrival ex_established
      (ex_packet SERVER SYN 100 0) ''R'' ex_established))) = Some ''SES-1'' \<and>
   snd (processPacketArrival ex_established (ex_packet SERVER SYN 100 0) ''R'' ex_established)
     = []"
proof -
  have r: "roles_ok ex_established"
    by (simp add: roles_ok_def ex_established_def)
  have n: "\<not> spec_transition_row (destination (ex_packet SERVER SYN 100 0))
       (node (destination (ex_packet SERVER SYN 100 0)) ex_established)
       (ex_packet SERVER SYN 100 0)"
    by (simp add: spec_transition_row_def node_def ex_packet_def ex_established_def)
  have fields: "connectionState (server ex_established) = ESTABLISHED"
    "seq (server ex_established) = 5001" "lastAckReceived (server ex_established) = 101"
    "sessionId (server ex_established) = Some ''SES-1''"
    by (simp_all add: ex_established_def)
  let ?w' = "fst (processPacketArrival ex_established (ex_packet SERVER SYN 100 0) ''R''
                    ex_established)"
  have kept: "connectionState (node SERVER ?w') = connectionState (node SERVER ex_established) \<and>
      seq (node SERVER ?w') = seq (node SERVER ex_established) \<and>
      lastAckReceived (node SERVER ?w') = lastAckReceived (node SERVER ex_established) \<and>
      sessionId (node SERVER ?w') = sessionId (node SERVER ex_established) \<and>
      snd (processPacketArrival ex_established (ex_packet SERVER SYN 100 0) ''R''
             ex_established) = []"
    using unmatched_packet_is_ignored
            [OF r n, where r = SERVER and rnd = "''R''" and w = ex_established]
    by blast
  show ?thesis
    using kept r n by (simp add: node_def fields)
qed

section \<open>Sequence numbers of the sender\<close>



section \<open>Disconnect\<close>

text \<open>
  Claim C9: \<^verbatim>\<open>disconnect()\<close> with the client ESTABLISHED puts a FIN in flight and sets
  the client to CLOSED with no session at once, while the FIN is still in flight and the
  server is as it was. Whatever happens to the FIN afterwards, its arrival timer firing
  or a drop, the client stays CLOSED with no session.
\<close>

theorem disconnect_closes_immediately:
  assumes "connectionState (client w) = ESTABLISHED"
  shows "packets (fst (disconnect rnd now w)) = packets w @ [\<lparr>pkt_id = rnd, source = CLIENT, destination = SERVER, flag = FIN,
        pkt_seq = seq (client w), ack = lastAckReceived (client w), payload = [],
        pkt_sessionId = or_none (sessionId (client w)), timestamp = now,
        dropped = None\<rparr>] \<and>
         snd (disconnect rnd now w) = [Arrival w \<lparr>pkt_id = rnd, source = CLIENT, destination = SERVER, flag = FIN,
        pkt_seq = seq (client w), ack = lastAckReceived (client w), payload = [],
        pkt_sessionId = or_none (sessionId (client w)), timestamp = now,
        dropped = None\<rparr>] \<and>
         server (fst (disconnect rnd now w)) = server w \<and>
         connectionState (client (fst (disconnect rnd now w))) = CLOSED \<and>
         sessionId (client (fst (disconnect rnd now w))) = None \<and>
         connectionState (client (fst (fire (Arrival w \<lparr>pkt_id = rnd, source = CLIENT, destination = SERVER, flag = FIN,
        pkt_seq = seq (client w), ack = lastAckReceived (client w), payload = [],
        pkt_sessionId = or_none (sessionId (client w)), timestamp = now,
        dropped = None\<rparr>) rnd' now'
            (fst (disconnect rnd now w))))) = CLOSED \<and>
         sessionId (client (fst (fire (Arrival w \<lparr>pkt_id = rnd, source = CLIENT, destination = SERVER, flag = FIN,
        pkt_seq = seq (client w), ack = lastAckReceived (client w), payload = [],
        pkt_sessionId = or_none (sessionId (client w)), timestamp = now,
        dropped = None\<rparr>) rnd' now'
            (fst (disconnect rnd now w))))) = None \<and>
         connectionState (client (snd (dropPacket rnd (fst (disconnect rnd now w))))) = CLOSED \<and>
         sessionId (client (snd (dropPacket rnd (fst (disconnect rnd now w))))) = None"
proof -
  let ?fin = "\<lparr>pkt_id = rnd, source = CLIENT, destination = SERVER, flag = FIN,
        pkt_seq = seq (client w), ack = lastAckReceived (client w), payload = [],
        pkt_sessionId = or_none (sessionId (client w)), timestamp = now,
        dropped = None\<rparr>"
  have sent: "packets (fst (disconnect rnd now w)) = packets w @ [?fin] \<and>
         snd (disconnect rnd now w) = [Arrival w ?fin] \<and>
         server (fst (disconnect rnd now w)) = server w \<and>
         connectionState (client (fst (disconnect rnd now w))) = CLOSED \<and>
         sessionId (client (fst (disconnect rnd now w))) = None"
    by (simp add: disconnect_def handleDisconnect_def sendPacketWithSchedule_def
        schedulePacketArrival_def Let_def addLog_simps)
  have fin: "flag ?fin = FIN"
    by simp
  have delivered: "connectionState (client (fst (fire (Arrival w ?fin) rnd' now'
            (fst (disconnect rnd now w))))) = CLOSED \<and>
         sessionId (client (fst (fire (Arrival w ?fin) rnd' now'
            (fst (disconnect rnd now w))))) = None"
  proof (cases "find (\<lambda>q. pkt_id q = pkt_id ?fin) (packets (fst (disconnect rnd now w)))")
    case None
    then show ?thesis
      using sent by (simp add: fire_Arrival_absent del: fire.simps)
  next
    case (Some q)
    then show ?thesis
      using sent client_kept_by_fin [OF fin, of w rnd' "fst (disconnect rnd now w)"]
      by (simp add: fire_Arrival_present [OF Some] del: fire.simps)
  qed
  have dropped: "connectionState (client (snd (dropPacket rnd (fst (disconnect rnd now w)))))
           = CLOSED \<and>
         sessionId (client (snd (dropPacket rnd (fst (disconnect rnd now w))))) = None"
    using sent client_kept_by_drop [of "fst (disconnect rnd now w)" rnd
                                       "fst (disconnect rnd now w)"]
    by (simp add: dropPacket_def)
  show ?thesis
    using sent delivered dropped by blast
qed

theorem disconnect_closes_immediately_witness:
  "connectionState (client ex_established) = ESTABLISHED \<and>
   connectionState (client (fst (disconnect ''p1'' 0 ex_established))) = CLOSED \<and>
   sessionId (client (fst (disconnect ''p1'' 0 ex_established))) = None \<and>
   server (fst (disconnect ''p1'' 0 ex_established)) = server ex_established \<and>
   packets (fst (disconnect ''p1'' 0 ex_established)) =
     [\<lparr>pkt_id = ''p1'', source = CLIENT, destination = SERVER, flag = FIN, pkt_seq = 101,
       ack = 5001, payload = [], pkt_sessionId = Some ''SES-1'', timestamp = 0,
       dropped = None\<rparr>]"
proof -
  have h: "connectionState (client ex_established) = ESTABLISHED"
    by (simp add: ex_established_def)
  have vals: "seq (client ex_established) = 101"
    "lastAckReceived (client ex_established) = 5001"
    "or_none (sessionId (client ex_established)) = Some ''SES-1''"
    "packets ex_established = []"
    by (simp_all add: ex_established_def or_none_def)
  note d = disconnect_closes_immediately [OF h, of "''p1''" 0 "''R''" 1]
  have a: "packets (fst (disconnect ''p1'' 0 ex_established)) = packets ex_established @
      [\<lparr>pkt_id = ''p1'', source = CLIENT, destination = SERVER, flag = FIN,
        pkt_seq = seq (client ex_established), ack = lastAckReceived (client ex_established),
        payload = [], pkt_sessionId = or_none (sessionId (client ex_established)),
        timestamp = 0, dropped = None\<rparr>]"
    using d by blast
  have b: "server (fst (disconnect ''p1'' 0 ex_established)) = server ex_established \<and>
      connectionState (client (fst (disconnect ''p1'' 0 ex_established))) = CLOSED \<and>
      sessionId (client (fst (disconnect ''p1'' 0 ex_established))) = None"
    using d by blast
  show ?thesis
    using a b h by (simp add: vals)
qed

text \<open>
  Claim C10: \<^verbatim>\<open>handleDisconnect\<close> has no guard. In every state of the client, in the
  render and now, it puts a FIN in flight with its arrival timer, adds 1 to the client's
  \<^verbatim>\<open>seq\<close> and leaves the client CLOSED with no session; it is never a no-op.
  \<^verbatim>\<open>handleConnect\<close> is a no-op unless the client is CLOSED and \<^verbatim>\<open>handleSendData\<close> is
  a no-op unless it is ESTABLISHED.
\<close>

theorem disconnect_has_no_precondition:
  "packets (fst (handleDisconnect snap rnd now w)) = packets w @ [\<lparr>pkt_id = rnd, source = CLIENT, destination = SERVER, flag = FIN,
        pkt_seq = seq (client snap), ack = lastAckReceived (client snap), payload = [],
        pkt_sessionId = or_none (sessionId (client snap)), timestamp = now,
        dropped = None\<rparr>] \<and>
   snd (handleDisconnect snap rnd now w) = [Arrival snap \<lparr>pkt_id = rnd, source = CLIENT, destination = SERVER, flag = FIN,
        pkt_seq = seq (client snap), ack = lastAckReceived (client snap), payload = [],
        pkt_sessionId = or_none (sessionId (client snap)), timestamp = now,
        dropped = None\<rparr>] \<and>
   seq (client (fst (handleDisconnect snap rnd now w))) = seq (client w) + 1 \<and>
   connectionState (client (fst (handleDisconnect snap rnd now w))) = CLOSED \<and>
   sessionId (client (fst (handleDisconnect snap rnd now w))) = None \<and>
   handleDisconnect snap rnd now w \<noteq> (w, []) \<and>
   disconnect rnd now w = handleDisconnect w rnd now w \<and>
   (connectionState (client snap) \<noteq> CLOSED \<longrightarrow> handleConnect snap rnd now w = (w, [])) \<and>
   (connectionState (client snap) \<noteq> ESTABLISHED \<longrightarrow>
      handleSendData snap pl rnd now w = (w, []))"
  by (simp add: disconnect_def handleDisconnect_def sendPacketWithSchedule_def
      schedulePacketArrival_def handleConnect_def handleSendData_def Let_def addLog_simps)

theorem disconnect_has_no_precondition_witness:
  "connectionState (client initial) = CLOSED \<and>
   connectionState (client initial) \<noteq> ESTABLISHED \<and>
   flag (last (packets (fst (disconnect ''p1'' 0 initial)))) = FIN \<and>
   seq (client (fst (disconnect ''p1'' 0 initial))) = 101 \<and>
   connectionState (client (fst (disconnect ''p1'' 0 initial))) = CLOSED \<and>
   sessionId (client (fst (disconnect ''p1'' 0 initial))) = None \<and>
   handleSendData initial ''X'' ''p1'' 0 initial = (initial, []) \<and>
   connectionState (client ex_established) \<noteq> CLOSED \<and>
   handleConnect ex_established ''p1'' 0 ex_established = (ex_established, [])"
proof -
  have i: "connectionState (client initial) = CLOSED"
    "connectionState (client initial) \<noteq> ESTABLISHED" "seq (client initial) = 100"
    by (simp_all add: initial_def INITIAL_SEQ_def)
  have e: "connectionState (client ex_established) \<noteq> CLOSED"
    by (simp add: ex_established_def)
  note a = disconnect_has_no_precondition [of initial "''p1''" 0 initial "''X''"]
  note b = disconnect_has_no_precondition [of ex_established "''p1''" 0 ex_established "''X''"]
  have a1: "packets (fst (handleDisconnect initial ''p1'' 0 initial)) = packets initial @
      [\<lparr>pkt_id = ''p1'', source = CLIENT, destination = SERVER, flag = FIN,
        pkt_seq = seq (client initial), ack = lastAckReceived (client initial), payload = [],
        pkt_sessionId = or_none (sessionId (client initial)), timestamp = 0,
        dropped = None\<rparr>]"
    using a by blast
  have a2: "seq (client (fst (handleDisconnect initial ''p1'' 0 initial)))
              = seq (client initial) + 1 \<and>
      connectionState (client (fst (handleDisconnect initial ''p1'' 0 initial))) = CLOSED \<and>
      sessionId (client (fst (handleDisconnect initial ''p1'' 0 initial))) = None \<and>
      disconnect ''p1'' 0 initial = handleDisconnect initial ''p1'' 0 initial"
    using a by blast
  have a3: "handleSendData initial ''X'' ''p1'' 0 initial = (initial, [])"
    using a i(2) by blast
  have b1: "handleConnect ex_established ''p1'' 0 ex_established = (ex_established, [])"
    using b e by blast
  show ?thesis
    using a1 a2 a3 b1 e by (simp add: i)
qed

section \<open>The unused second handler\<close>

text \<open>
  \<^verbatim>\<open>processPacketArrivalRef.current\<close> differs from the handler that runs in two
  transitions of the server: it takes every ACK in SYN_RCVD as the end of the handshake,
  without comparing \<^verbatim>\<open>packet.ack\<close> with \<^verbatim>\<open>server.seq\<close>, and it closes on a FIN in every
  state in which the SYN, ACK and DATA branches do not apply.
\<close>

lemma ref_handler_ack_unguarded:
  assumes "roles_ok snap" and "destination p = SERVER" and "flag p = ACK"
    and "connectionState (server snap) = SYN_RCVD"
  shows "connectionState (server (fst (processPacketArrivalRef_current snap p rnd w)))
           = ESTABLISHED"
  using assms
  by (simp add: roles_ok_def processPacketArrivalRef_current_def serverLogic_def
      clientLogic_def Let_def addLog_simps)

lemma ref_handler_fin_closes_in_every_state:
  assumes "roles_ok snap" and "destination p = SERVER" and "flag p = FIN"
  shows "connectionState (server (fst (processPacketArrivalRef_current snap p rnd w))) = CLOSED \<and>
         sessionId (server (fst (processPacketArrivalRef_current snap p rnd w))) = None"
  using assms
  by (simp add: roles_ok_def processPacketArrivalRef_current_def serverLogic_def
      clientLogic_def Let_def addLog_simps)

end
